theory Spec2Isabelle
  imports Complex_Main "HOL-Library.Multiset"
begin

section \<open>Go integers and formatting\<close>

text \<open>
  Go's \<open>int\<close> is a 64-bit two's complement integer on the platforms FlowGauge is built
  for.  It is modelled as an \<open>int\<close> with the wrap-around written out; \<open><<\<close> wraps,
  \<open>>>\<close> on a signed value is the arithmetic shift (rounding towards minus infinity).
\<close>

definition wrap64 :: "int \<Rightarrow> int" where
  "wrap64 x = (x + 2 ^ 63) mod 2 ^ 64 - 2 ^ 63"

definition shl :: "int \<Rightarrow> nat \<Rightarrow> int" where
  "shl x n = wrap64 (x * 2 ^ n)"

definition shr :: "int \<Rightarrow> nat \<Rightarrow> int" where
  "shr x n = x div 2 ^ n"

text \<open>The verb \<open>%d\<close> of \<open>fmt\<close>: decimal digits, with a leading minus sign.\<close>

definition digit_char :: "nat \<Rightarrow> char" where
  "digit_char n = ''0123456789'' ! n"

function string_of_nat :: "nat \<Rightarrow> string" where
  "string_of_nat n =
     (if n < 10 then [digit_char n]
      else string_of_nat (n div 10) @ [digit_char (n mod 10)])"
  by pat_completeness auto
termination
  by (relation "measure (\<lambda>n. n)") auto

declare string_of_nat.simps [simp del]

definition fmt_d :: "int \<Rightarrow> string" where
  "fmt_d i = (if i < 0 then CHR ''-'' # string_of_nat (nat (- i)) else string_of_nat (nat i))"

section \<open>internal/speedtest/dscp.go\<close>

text \<open>
  \<open>DSCPDialer\<close>: the DSCP value, the optional source address and the logger.  The logger
  is a pointer that may be nil; only whether it is set matters, its output is collected
  in the log of the effects below.
\<close>

record DSCPDialer =
  DSCP_d :: int
  SourceIP_d :: string
  Logger_d :: bool

definition DSCPToTOS :: "int \<Rightarrow> int" where
  "DSCPToTOS dscp = shl dscp 2"

definition TOSToDSCP :: "int \<Rightarrow> int" where
  "TOSToDSCP tos = shr tos 2"

text \<open>
  \<open>NewDSCPDialer\<close>.  \<open>net.ParseIP\<close> belongs to Go's standard library; it is a parameter
  that tells whether a string parses as an IP literal.
\<close>

definition NewDSCPDialer :: "(string \<Rightarrow> bool) \<Rightarrow> int \<Rightarrow> string \<Rightarrow> bool \<Rightarrow> string + DSCPDialer" where
  "NewDSCPDialer ParseIP dscp sourceIP logger =
     (if dscp < 0 \<or> dscp > 63
      then Inl (''DSCP value must be between 0 and 63, got '' @ fmt_d dscp)
      else if sourceIP \<noteq> [] \<and> \<not> ParseIP sourceIP
      then Inl (''invalid source IP address: '' @ sourceIP)
      else Inr \<lparr>DSCP_d = dscp, SourceIP_d = sourceIP, Logger_d = logger\<rparr>)"

section \<open>internal/speedtest/dscp\_unix.go and dscp\_windows.go\<close>

text \<open>
  What a control function does to the socket and to the log is returned next to its
  error: \<open>marks\<close> are the socket options that were set successfully, \<open>attempts\<close> every
  call of \<open>SetsockoptInt\<close> with its value, \<open>logs\<close> the logger's messages.
\<close>

datatype sockopt = IP_TOS | IPV6_TCLASS

record effects =
  attempts :: "(sockopt \<times> int) list"
  marks :: "(sockopt \<times> int) list"
  logs :: "string list"

definition no_effects :: effects where
  "no_effects = \<lparr>attempts = [], marks = [], logs = []\<rparr>"

text \<open>
  The socket as the operating system presents it: \<open>raw_control\<close> is the error of
  \<open>RawConn.Control\<close> (\<open>None\<close> for nil), \<open>setsockopt\<close> the error of \<open>SetsockoptInt\<close> for
  an option and a value, \<open>bind\<close> the error of binding the local address, \<open>connect\<close> the
  error of the handshake; \<open>resolved\<close> maps the network given to the dial to the network
  string the standard library hands to the control function (for \<open>tcp\<close> it is \<open>tcp4\<close>
  or \<open>tcp6\<close>, after the address family was resolved).
\<close>

datatype addr = TCPAddr string | UDPAddr string

record sock_env =
  resolved :: "string \<Rightarrow> string"
  raw_control :: "string option"
  setsockopt :: "sockopt \<Rightarrow> int \<Rightarrow> string option"
  bind :: "addr \<Rightarrow> string option"
  connect :: "string option"

definition controlFunc_unix :: "DSCPDialer \<Rightarrow> string \<Rightarrow> sock_env \<Rightarrow> string option \<times> effects" where
  "controlFunc_unix d network env =
     (case raw_control env of
        Some err \<Rightarrow> (Some (''failed to access raw connection: '' @ err), no_effects)
      | None \<Rightarrow>
          (let tos = shl (DSCP_d d) 2;
               isIPv6 = (network = ''tcp6'' \<or> network = ''udp6'');
               opt = (if isIPv6 then IPV6_TCLASS else IP_TOS)
           in case setsockopt env opt tos of
                None \<Rightarrow>
                  (None, \<lparr>attempts = [(opt, tos)], marks = [(opt, tos)],
                          logs = (if Logger_d d then [''DSCP set successfully''] else [])\<rparr>)
              | Some setsockoptErr \<Rightarrow>
                  (Some (''failed to set DSCP (TOS='' @ fmt_d (shl (DSCP_d d) 2) @ ''): '' @ setsockoptErr),
                   \<lparr>attempts = [(opt, tos)], marks = [], logs = []\<rparr>)))"

definition controlFunc_windows :: "DSCPDialer \<Rightarrow> string \<Rightarrow> sock_env \<Rightarrow> string option \<times> effects" where
  "controlFunc_windows d network env =
     (None, \<lparr>attempts = [], marks = [],
             logs = (if Logger_d d
                     then [''DSCP marking is not supported on Windows, skipping''] else [])\<rparr>)"

text \<open>The build tag chooses one of the two files.\<close>

datatype build = Unix | Windows

definition controlFunc :: "build \<Rightarrow> DSCPDialer \<Rightarrow> string \<Rightarrow> sock_env \<Rightarrow> string option \<times> effects" where
  "controlFunc b d network env =
     (case b of Unix \<Rightarrow> controlFunc_unix d network env
              | Windows \<Rightarrow> controlFunc_windows d network env)"


section \<open>DSCPDialer.DialContext\<close>

text \<open>
  \<open>net.Dialer\<close> of Go's standard library, as far as \<open>DialContext\<close> uses it: the fields
  \<open>LocalAddr\<close> and \<open>Control\<close>.  Its \<open>DialContext\<close> creates the socket, calls \<open>Control\<close>
  (when set) after the socket exists and before connecting, and gives up with \<open>Control\<close>'s
  error when there is one; then it binds the local address and connects.
\<close>

datatype dial_error = InvalidSourceIP string | OpError string

datatype conn = Conn "addr option"

record Dialer =
  LocalAddr :: "addr option"
  Control :: "(string \<Rightarrow> sock_env \<Rightarrow> string option \<times> effects) option"

definition net_DialContext :: "Dialer \<Rightarrow> sock_env \<Rightarrow> string \<Rightarrow> (dial_error + conn) \<times> effects" where
  "net_DialContext dialer env network =
     (case (case Control dialer of
              None \<Rightarrow> (None, no_effects)
            | Some f \<Rightarrow> f (resolved env network) env) of
        (Some e, eff) \<Rightarrow> (Inl (OpError e), eff)
      | (None, eff) \<Rightarrow>
          (case (case LocalAddr dialer of None \<Rightarrow> None | Some a \<Rightarrow> bind env a) of
             Some e \<Rightarrow> (Inl (OpError e), eff)
           | None \<Rightarrow>
               (case connect env of
                  Some e \<Rightarrow> (Inl (OpError e), eff)
                | None \<Rightarrow> (Inr (Conn (LocalAddr dialer)), eff))))"

definition local_addr :: "string \<Rightarrow> string \<Rightarrow> addr" where
  "local_addr network ip =
     (if network = ''tcp'' \<or> network = ''tcp4'' \<or> network = ''tcp6'' then TCPAddr ip
      else if network = ''udp'' \<or> network = ''udp4'' \<or> network = ''udp6'' then UDPAddr ip
      else TCPAddr ip)"

definition DialContext ::
  "build \<Rightarrow> (string \<Rightarrow> bool) \<Rightarrow> DSCPDialer \<Rightarrow> sock_env \<Rightarrow> string \<Rightarrow> string
     \<Rightarrow> (dial_error + conn) \<times> effects" where
  "DialContext b ParseIP d env network address =
     (if SourceIP_d d \<noteq> [] \<and> \<not> ParseIP (SourceIP_d d)
      then (Inl (InvalidSourceIP (''invalid source IP: '' @ SourceIP_d d)), no_effects)
      else
        (let dialer = \<lparr>LocalAddr = (if SourceIP_d d \<noteq> []
                                     then Some (local_addr network (SourceIP_d d)) else None),
                       Control = (if DSCP_d d > 0 then Some (controlFunc b d) else None)\<rparr>;
             bound = (if SourceIP_d d \<noteq> [] \<and> Logger_d d then [''Binding to source IP''] else [])
         in case net_DialContext dialer env network of
              (r, eff) \<Rightarrow> (r, eff\<lparr>logs := bound @ logs eff\<rparr>)))"

text \<open>\<open>Dial\<close> is \<open>DialContext\<close> with the background context.\<close>

definition Dial ::
  "build \<Rightarrow> (string \<Rightarrow> bool) \<Rightarrow> DSCPDialer \<Rightarrow> sock_env \<Rightarrow> string \<Rightarrow> string
     \<Rightarrow> (dial_error + conn) \<times> effects" where
  "Dial b ParseIP d env network address = DialContext b ParseIP d env network address"

section \<open>internal/speedtest/result.go\<close>

text \<open>
  \<open>Result\<close>.  The \<open>float64\<close> fields are reals (only whether they are zero and which
  measurement they hold matters here), \<open>Timestamp\<close> is the instant in nanoseconds with
  0 for the zero \<open>time.Time\<close>, \<open>Duration\<close> is in seconds.
\<close>

record Result =
  ConnectionName :: string
  SourceIP_r :: string
  DSCP_r :: int
  ServerID :: int
  ServerName :: string
  ServerCountry :: string
  ServerHost :: string
  LatencyMs :: real
  JitterMs :: real
  DownloadMbps :: real
  UploadMbps :: real
  PacketLossPct :: real
  Timestamp :: int
  Duration :: real
  Error :: string

text \<open>The zero value of the struct, which a composite literal fills in for omitted fields.\<close>

definition zero_Result :: Result where
  "zero_Result =
     \<lparr>ConnectionName = [], SourceIP_r = [], DSCP_r = 0, ServerID = 0, ServerName = [],
      ServerCountry = [], ServerHost = [], LatencyMs = 0, JitterMs = 0, DownloadMbps = 0,
      UploadMbps = 0, PacketLossPct = 0, Timestamp = 0, Duration = 0, Error = []\<rparr>"

definition IsError :: "Result \<Rightarrow> bool" where
  "IsError r = (Error r \<noteq> [])"

section \<open>Runner (speedtest runner)\<close>

record WANConnection =
  Name :: string
  SourceIP :: string
  DSCP :: int
  Enabled :: bool

record ConnectionConfig =
  Name_c :: string
  SourceIP_c :: string
  DSCP_c :: int
  Enabled_c :: bool

definition WANConnectionFromConfig :: "ConnectionConfig \<Rightarrow> WANConnection" where
  "WANConnectionFromConfig cfg =
     \<lparr>Name = Name_c cfg, SourceIP = SourceIP_c cfg, DSCP = DSCP_c cfg, Enabled = Enabled_c cfg\<rparr>"

text \<open>
  Of the \<open>SpeedtestConfig\<close> the runner reads the server ids only; the timeout and the
  download and upload sizes are not read by \<open>Run\<close>.
\<close>

record SpeedtestConfig =
  ServerIDs :: "int list"

record Runner =
  config_r :: SpeedtestConfig

definition NewRunner :: "SpeedtestConfig option \<Rightarrow> string + Runner" where
  "NewRunner cfg =
     (case cfg of
        None \<Rightarrow> Inr \<lparr>config_r = \<lparr>ServerIDs = []\<rparr>\<rparr>
      | Some c \<Rightarrow> Inr \<lparr>config_r = c\<rparr>)"

text \<open>
  The measurement client (speedtest-go) and the clock are outside the repository.  What
  they answer during one call of \<open>Run\<close> is a \<open>world\<close>: the clock at the start and the
  seconds elapsed when the measurement is over, the error of \<open>FetchServers\<close>, the result of
  \<open>FindServer\<close>, and for each server the outcome of its three tests.  \<open>PingTest\<close> is
  an error or the latency and the jitter in whole milliseconds; \<open>DLSpeed_Mbps\<close> and
  \<open>ULSpeed_Mbps\<close> are what \<open>server.DLSpeed.Mbps()\<close> and \<open>server.ULSpeed.Mbps()\<close>
  read after the tests, failed or not.  \<open>Sscanf_d\<close> is \<open>fmt.Sscanf\<close> with \<open>%d\<close>.
\<close>

record Server =
  srv_Name :: string
  srv_Country :: string
  srv_Host :: string
  srv_ID :: string
  PingTest :: "string + int \<times> int"
  DownloadTest :: "string option"
  DLSpeed_Mbps :: real
  UploadTest :: "string option"
  ULSpeed_Mbps :: real

record world =
  ParseIP_w :: "string \<Rightarrow> bool"
  Now :: int
  Since :: real
  FetchServers :: "string option"
  FindServer :: "int list \<Rightarrow> string + Server list"
  Sscanf_d :: "string \<Rightarrow> int option"

text \<open>
  A context, as the code reads it: \<open>ctx i\<close> is \<open>ctx.Err()\<close> at the \<open>i\<close>-th look at
  \<open>ctx.Done()\<close>, \<open>None\<close> while the context is not done.
\<close>

type_synonym ctx = "nat \<Rightarrow> string option"

definition parseServerID :: "world \<Rightarrow> string \<Rightarrow> int" where
  "parseServerID w sid = (case Sscanf_d w sid of None \<Rightarrow> 0 | Some serverID \<Rightarrow> serverID)"

text \<open>
  \<open>Runner.Run\<close> returns a pair in Go, the result and the error; both are kept.  The
  context is a parameter that the body never reads.  The dialer that \<open>Run\<close> builds is
  handed to the measurement client as its control function; what the client then measures
  is the world's answer.
\<close>

definition Run :: "Runner \<Rightarrow> world \<Rightarrow> ctx \<Rightarrow> WANConnection \<Rightarrow> Result \<times> string option" where
  "Run r w c conn =
     (let startTime = Now w;
          result = zero_Result\<lparr>ConnectionName := Name conn, SourceIP_r := SourceIP conn,
                               DSCP_r := DSCP conn, Timestamp := startTime\<rparr>
      in case NewDSCPDialer (ParseIP_w w) (DSCP conn) (SourceIP conn) True of
           Inl err \<Rightarrow> (result\<lparr>Error := ''failed to create DSCP dialer: '' @ err\<rparr>, Some err)
         | Inr dscpDialer \<Rightarrow>
             (case FetchServers w of
                Some err \<Rightarrow> (result\<lparr>Error := ''failed to fetch servers: '' @ err\<rparr>, Some err)
              | None \<Rightarrow>
                  (case FindServer w (ServerIDs (config_r r)) of
                     Inl err \<Rightarrow> (result\<lparr>Error := ''failed to find server: '' @ err\<rparr>, Some err)
                   | Inr targets \<Rightarrow>
                       (case targets of
                          [] \<Rightarrow> (result\<lparr>Error := ''no speedtest servers available''\<rparr>,
                                 Some ''no speedtest servers available'')
                        | server # others \<Rightarrow>
                            (let result1 = result\<lparr>ServerName := srv_Name server,
                                                   ServerCountry := srv_Country server,
                                                   ServerHost := srv_Host server,
                                                   ServerID := parseServerID w (srv_ID server)\<rparr>;
                                 result2 = (case PingTest server of
                                              Inl err \<Rightarrow> result1
                                            | Inr (latency, jitter) \<Rightarrow>
                                                result1\<lparr>LatencyMs := real_of_int latency,
                                                        JitterMs := real_of_int jitter\<rparr>);
                                 result3 = result2\<lparr>DownloadMbps := DLSpeed_Mbps server\<rparr>;
                                 result4 = result3\<lparr>UploadMbps := ULSpeed_Mbps server\<rparr>;
                                 result5 = result4\<lparr>Duration := Since w\<rparr>
                             in (result5, None))))))"

section \<open>MultiWANRunner\<close>

record MultiWANRunner =
  connections :: "WANConnection list"
  runner :: Runner
  parallel :: bool

definition NewMultiWANRunner ::
  "ConnectionConfig list \<Rightarrow> SpeedtestConfig option \<Rightarrow> string + MultiWANRunner" where
  "NewMultiWANRunner conns cfg =
     (let wanConns = map WANConnectionFromConfig (filter Enabled_c conns)
      in if length wanConns = 0 then Inl ''no enabled connections found''
         else case NewRunner cfg of
                Inl err \<Rightarrow> Inl (''failed to create speedtest runner: '' @ err)
              | Inr rn \<Rightarrow> Inr \<lparr>connections = wanConns, runner = rn, parallel = False\<rparr>)"


text \<open>The result built in place of a failed one, in both execution modes.\<close>

definition error_result :: "WANConnection \<Rightarrow> string \<Rightarrow> Result" where
  "error_result conn err =
     zero_Result\<lparr>ConnectionName := Name conn, SourceIP_r := SourceIP conn,
                 DSCP_r := DSCP conn, Error := err\<rparr>"

definition run_one :: "Runner \<Rightarrow> world \<Rightarrow> ctx \<Rightarrow> WANConnection \<Rightarrow> Result" where
  "run_one r w c conn =
     (case Run r w c conn of
        (result, Some err) \<Rightarrow> error_result conn err
      | (result, None) \<Rightarrow> result)"

text \<open>
  \<open>runSequential\<close>: the loop over the connections, with the index of the iteration and
  the results so far.  \<open>ws i\<close> is the world the probe of the \<open>i\<close>-th connection meets.
\<close>

fun seq_loop ::
  "Runner \<Rightarrow> (nat \<Rightarrow> world) \<Rightarrow> ctx \<Rightarrow> nat \<Rightarrow> WANConnection list \<Rightarrow> Result list
     \<Rightarrow> Result list \<times> string option" where
  "seq_loop r ws c i [] results = (results, None)"
| "seq_loop r ws c i (conn # rest) results =
     (case c i of
        Some cancelled \<Rightarrow> (results, Some cancelled)
      | None \<Rightarrow> seq_loop r ws c (Suc i) rest (results @ [run_one r (ws i) c conn]))"

definition runSequential ::
  "MultiWANRunner \<Rightarrow> (nat \<Rightarrow> world) \<Rightarrow> ctx \<Rightarrow> Result list \<times> string option" where
  "runSequential m ws c = seq_loop (runner m) ws c 0 (connections m) []"

text \<open>
  \<open>runParallel\<close>: one goroutine per connection sends its result to a channel with room
  for all of them; after \<open>wg.Wait()\<close> every goroutine has sent, and the channel is read
  in the order of the sends.  That order is the parameter \<open>order\<close>, the indices of the
  connections in the order in which their goroutines finish.
\<close>

definition runParallel ::
  "MultiWANRunner \<Rightarrow> (nat \<Rightarrow> world) \<Rightarrow> ctx \<Rightarrow> nat list \<Rightarrow> Result list \<times> string option" where
  "runParallel m ws c order =
     (map (\<lambda>i. run_one (runner m) (ws i) c (connections m ! i)) order, None)"

definition RunAll ::
  "MultiWANRunner \<Rightarrow> (nat \<Rightarrow> world) \<Rightarrow> ctx \<Rightarrow> nat list \<Rightarrow> Result list \<times> string option" where
  "RunAll m ws c order =
     (if parallel m then runParallel m ws c order else runSequential m ws c)"

text \<open>The verb \<open>%q\<close> on a name without characters to escape: the name in double quotes.\<close>

definition fmt_q :: "string \<Rightarrow> string" where
  "fmt_q s = CHR 0x22 # s @ [CHR 0x22]"

fun conn_loop ::
  "Runner \<Rightarrow> (nat \<Rightarrow> world) \<Rightarrow> ctx \<Rightarrow> string \<Rightarrow> nat \<Rightarrow> WANConnection list
     \<Rightarrow> Result option \<times> string option" where
  "conn_loop r ws c name i [] = (None, Some (''connection '' @ fmt_q name @ '' not found''))"
| "conn_loop r ws c name i (conn # rest) =
     (if Name conn = name
      then (case Run r (ws i) c conn of (result, err) \<Rightarrow> (Some result, err))
      else conn_loop r ws c name (Suc i) rest)"

definition RunConnection ::
  "MultiWANRunner \<Rightarrow> (nat \<Rightarrow> world) \<Rightarrow> ctx \<Rightarrow> string \<Rightarrow> Result option \<times> string option" where
  "RunConnection m ws c name = conn_loop (runner m) ws c name 0 (connections m)"

definition GetConnections :: "MultiWANRunner \<Rightarrow> WANConnection list" where
  "GetConnections m = connections m"

section \<open>internal/scheduler: the Scheduler\<close>

record SchedulerConfig =
  Enabled_s :: bool
  Schedule :: string

text \<open>
  The cron library (robfig/cron) is outside the repository.  Of a \<open>cron.Cron\<close> the
  scheduler uses \<open>AddFunc\<close>, \<open>Start\<close> and \<open>Entry\<close>: \<open>AddFunc\<close> parses the schedule
  and, when it parses, registers the job under the next entry id (the first id is 1);
  \<open>Entry\<close> returns the entry of an id, whose \<open>Job\<close> is nil when there is none.  The
  parser is a parameter: the error it has for a schedule expression.
\<close>

record Cron =
  cron_entries :: "nat list"
  cron_next :: nat
  cron_running :: bool

definition cron_New :: Cron where
  "cron_New = \<lparr>cron_entries = [], cron_next = 0, cron_running = False\<rparr>"

definition cron_AddFunc :: "(string \<Rightarrow> string option) \<Rightarrow> Cron \<Rightarrow> string \<Rightarrow> string + Cron \<times> nat" where
  "cron_AddFunc parse cr spec =
     (case parse spec of
        Some err \<Rightarrow> Inl err
      | None \<Rightarrow>
          (let entryID = Suc (cron_next cr)
           in Inr (cr\<lparr>cron_entries := cron_entries cr @ [entryID], cron_next := entryID\<rparr>,
                   entryID)))"

definition cron_Start :: "Cron \<Rightarrow> Cron" where
  "cron_Start cr = cr\<lparr>cron_running := True\<rparr>"

definition cron_Entry_Job :: "Cron \<Rightarrow> nat \<Rightarrow> bool" where
  "cron_Entry_Job cr entryID = (entryID \<in> set (cron_entries cr))"

text \<open>
  The \<open>Scheduler\<close> struct: its cron, its configuration, the \<open>running\<close> flag and the id
  of the registered job (0 while none is registered).  Runner, storage and logger are
  pointers the methods below only hand on.
\<close>

record Scheduler =
  cron :: Cron
  config_s :: SchedulerConfig
  running :: bool
  jobID :: nat

definition NewScheduler :: "SchedulerConfig option \<Rightarrow> bool \<Rightarrow> bool \<Rightarrow> string + Scheduler" where
  "NewScheduler cfg has_runner has_store =
     (case cfg of
        None \<Rightarrow> Inl ''scheduler config is required''
      | Some c \<Rightarrow>
          if \<not> has_runner then Inl ''speedtest runner is required''
          else if \<not> has_store then Inl ''storage is required''
          else Inr \<lparr>cron = cron_New, config_s = c, running = False, jobID = 0\<rparr>)"

definition Start :: "(string \<Rightarrow> string option) \<Rightarrow> Scheduler \<Rightarrow> Scheduler \<times> string option" where
  "Start parse s =
     (if running s then (s, Some ''scheduler already running'')
      else if \<not> Enabled_s (config_s s) then (s, None)
      else case cron_AddFunc parse (cron s) (Schedule (config_s s)) of
             Inl err \<Rightarrow>
               (s, Some (''failed to add cron job: '' @ err @ '' (schedule: ''
                           @ Schedule (config_s s) @ '')''))
           | Inr (cr, entryID) \<Rightarrow>
               (s\<lparr>jobID := entryID, cron := cron_Start cr, running := True\<rparr>, None))"

definition IsRunning :: "Scheduler \<Rightarrow> bool" where
  "IsRunning s = running s"

text \<open>Calling \<open>Start\<close> again and again: the scheduler after the calls and what each returned.\<close>

fun Start_times :: "(string \<Rightarrow> string option) \<Rightarrow> nat \<Rightarrow> Scheduler \<Rightarrow> Scheduler \<times> string option list" where
  "Start_times parse 0 s = (s, [])"
| "Start_times parse (Suc n) s =
     (case Start parse s of
        (s1, err) \<Rightarrow> (case Start_times parse n s1 of (s2, errs) \<Rightarrow> (s2, err # errs)))"

text \<open>
  The scheduler together with the goroutines that execute \<open>Job.Run\<close>, each of them one
  sweep (\<open>RunAll\<close> and the saving of its results): \<open>in_flight\<close> counts those that have
  been started and have not returned.  \<open>TriggerNow\<close> starts one with
  \<open>go entry.Job.Run()\<close>; \<open>sweep_done\<close> is the return of one of them.
\<close>

record process =
  sched :: Scheduler
  in_flight :: nat

definition TriggerNow :: "process \<Rightarrow> process" where
  "TriggerNow p =
     (if jobID (sched p) = 0 then p
      else if cron_Entry_Job (cron (sched p)) (jobID (sched p))
           then p\<lparr>in_flight := Suc (in_flight p)\<rparr>
           else p)"

definition sweep_done :: "process \<Rightarrow> process" where
  "sweep_done p = p\<lparr>in_flight := in_flight p - 1\<rparr>"

definition five_minutes :: SchedulerConfig where
  "five_minutes = \<lparr>Enabled_s = True, Schedule = ''*/5 * * * *''\<rparr>"

definition switched_off :: SchedulerConfig where
  "switched_off = \<lparr>Enabled_s = False, Schedule = ''*/5 * * * *''\<rparr>"

definition parse_any :: "string \<Rightarrow> string option" where
  "parse_any spec = (if spec = [] then Some ''empty spec string'' else None)"

section \<open>Scenarios\<close>

text \<open>
  Concrete paths, servers and worlds on which the theorems below are evaluated: a server
  whose three tests succeed, a server that is found while all of its tests fail, and the
  world in which the client finds the given servers five seconds after the start.
\<close>

definition path_A :: WANConnection where
  "path_A = \<lparr>Name = ''A'', SourceIP = [], DSCP = 0, Enabled = True\<rparr>"

definition path_B :: WANConnection where
  "path_B = \<lparr>Name = ''B'', SourceIP = [], DSCP = 46, Enabled = True\<rparr>"

definition path_C :: WANConnection where
  "path_C = \<lparr>Name = ''C'', SourceIP = [], DSCP = 10, Enabled = True\<rparr>"

definition server_up :: Server where
  "server_up =
     \<lparr>srv_Name = ''Frankfurt'', srv_Country = ''Germany'', srv_Host = ''speed.example.net:8080'',
      srv_ID = ''4711'', PingTest = Inr (12, 3), DownloadTest = None, DLSpeed_Mbps = 94,
      UploadTest = None, ULSpeed_Mbps = 41\<rparr>"

definition server_down :: Server where
  "server_down =
     \<lparr>srv_Name = ''Frankfurt'', srv_Country = ''Germany'', srv_Host = ''speed.example.net:8080'',
      srv_ID = ''4711'', PingTest = Inl ''ping failed'', DownloadTest = Some ''download failed'',
      DLSpeed_Mbps = 0, UploadTest = Some ''upload failed'', ULSpeed_Mbps = 0\<rparr>"

definition world_of :: "Server list \<Rightarrow> world" where
  "world_of targets =
     \<lparr>ParseIP_w = (\<lambda>s. True), Now = 1700000000, Since = 5, FetchServers = None,
      FindServer = (\<lambda>ids. Inr targets),
      Sscanf_d = (\<lambda>s. if s = ''4711'' then Some 4711 else None)\<rparr>"

definition default_runner :: Runner where
  "default_runner = \<lparr>config_r = \<lparr>ServerIDs = []\<rparr>\<rparr>"

definition three_paths :: MultiWANRunner where
  "three_paths = \<lparr>connections = [path_A, path_B, path_C], runner = default_runner, parallel = False\<rparr>"

definition never_cancelled :: ctx where
  "never_cancelled = (\<lambda>i. None)"


definition same_world :: "world \<Rightarrow> nat \<Rightarrow> world" where
  "same_world w i = w"

definition any_literal :: "string \<Rightarrow> bool" where
  "any_literal s = True"

definition dialer_46 :: DSCPDialer where
  "dialer_46 = \<lparr>DSCP_d = 46, SourceIP_d = [], Logger_d = True\<rparr>"

definition willing_socket :: sock_env where
  "willing_socket =
     \<lparr>resolved = (\<lambda>n. ''tcp4''), raw_control = None, setsockopt = (\<lambda>opt v. None),
      bind = (\<lambda>a. None), connect = None\<rparr>"

definition refusing_socket :: sock_env where
  "refusing_socket =
     \<lparr>resolved = (\<lambda>n. ''tcp4''), raw_control = None,
      setsockopt = (\<lambda>opt v. Some ''operation not permitted''),
      bind = (\<lambda>a. None), connect = None\<rparr>"

definition fresh_scheduler :: "SchedulerConfig \<Rightarrow> Scheduler" where
  "fresh_scheduler cfg = \<lparr>cron = cron_New, config_s = cfg, running = False, jobID = 0\<rparr>"

section \<open>Theorems\<close>

subsection \<open>Auxiliary facts\<close>

lemma wrap64_id: "- (2 ^ 63) \<le> x \<Longrightarrow> x < 2 ^ 63 \<Longrightarrow> wrap64 x = x"
  by (simp add: wrap64_def)



lemma Run_name: "ConnectionName (fst (Run r w c conn)) = Name conn"
  by (simp add: Run_def Let_def split: sum.splits option.splits list.splits prod.splits)

lemma run_one_name: "ConnectionName (run_one r w c conn) = Name conn"
  using Run_name [of r w c conn]
  by (auto simp: run_one_def error_result_def split: prod.splits option.splits)

lemma seq_loop_uncancelled:
  "(\<And>j. c j = None) \<Longrightarrow>
   seq_loop r ws c i xs acc
     = (acc @ map (\<lambda>(j, conn). run_one r (ws j) c conn) (enumerate i xs), None)"
  by (induction xs arbitrary: i acc) simp_all


lemma enum_names: "map ConnectionName (map (\<lambda>(j, conn). run_one r (ws j) c conn) (enumerate i xs)) = map Name xs"
  by (induction xs arbitrary: i) (simp_all add: run_one_name)

lemma conn_loop_found:
  "k < length xs \<Longrightarrow> Name (xs ! k) = name \<Longrightarrow> (\<And>j. j < k \<Longrightarrow> Name (xs ! j) \<noteq> name) \<Longrightarrow>
   conn_loop r ws c name i xs
     = (Some (fst (Run r (ws (i + k)) c (xs ! k))), snd (Run r (ws (i + k)) c (xs ! k)))"
proof (induction xs arbitrary: i k)
  case Nil
  then show ?case by simp
next
  case (Cons x xs)
  show ?case
  proof (cases k)
    case 0
    with Cons.prems show ?thesis by (simp split: prod.splits)
  next
    case (Suc k')
    have ne: "Name x \<noteq> name" using Cons.prems(3) [of 0] Suc by simp
    have "conn_loop r ws c name (Suc i) xs
            = (Some (fst (Run r (ws (Suc i + k')) c (xs ! k'))), snd (Run r (ws (Suc i + k')) c (xs ! k')))"
    proof (rule Cons.IH)
      show "k' < length xs" using Cons.prems(1) Suc by simp
      show "Name (xs ! k') = name" using Cons.prems(2) Suc by simp
      show "Name (xs ! j) \<noteq> name" if "j < k'" for j
        using Cons.prems(3) [of "Suc j"] that Suc by simp
    qed
    then show ?thesis using ne Suc by simp
  qed
qed

lemma Run_error_iff: "IsError (fst (Run r w c conn)) \<longleftrightarrow> snd (Run r w c conn) \<noteq> None"
  by (simp add: Run_def Let_def IsError_def zero_Result_def
        split: sum.splits option.splits list.splits prod.splits)

lemma Start_disabled: "\<not> running s \<Longrightarrow> \<not> Enabled_s (config_s s) \<Longrightarrow> Start parse s = (s, None)"
  by (simp add: Start_def)

lemma Start_times_disabled:
  "\<not> running s \<Longrightarrow> \<not> Enabled_s (config_s s) \<Longrightarrow> Start_times parse n s = (s, replicate n None)"
  by (induction n) (simp_all add: Start_disabled)

subsection \<open>The scheduler (C1, C10)\<close>

text \<open>
  C1, as the claim states it: at most one sweep is in flight, and a second \<open>TriggerNow\<close>
  while the first sweep runs starts nothing.  It is false: after a successful \<open>Start\<close>
  two calls of \<open>TriggerNow\<close> with no sweep finishing in between leave two sweeps running.
\<close>

theorem C1_two_triggers_counterexample:
  "in_flight (TriggerNow (TriggerNow
     \<lparr>sched = fst (Start parse_any (fresh_scheduler five_minutes)), in_flight = 0\<rparr>)) = 2"
  by (simp add: TriggerNow_def Start_def cron_AddFunc_def cron_Start_def cron_Entry_Job_def
        cron_New_def five_minutes_def parse_any_def fresh_scheduler_def)

text \<open>
  C1, amended: the scheduler keeps no record of a sweep in flight.  Whenever a job is
  registered (\<open>jobID\<close> is not 0 and the cron has the entry, as after every successful
  \<open>Start\<close>) each \<open>TriggerNow\<close> starts one more sweep, whatever the number already
  running, and leaves the scheduler's fields as they are; while no job is registered
  \<open>TriggerNow\<close> does nothing.
\<close>

theorem C1_trigger_always_launches:
  "(jobID (sched p) \<noteq> 0 \<and> cron_Entry_Job (cron (sched p)) (jobID (sched p)) \<longrightarrow>
      in_flight (TriggerNow p) = in_flight p + 1 \<and> sched (TriggerNow p) = sched p)
   \<and> (jobID (sched p) = 0 \<longrightarrow> TriggerNow p = p)
   \<and> (\<not> running s \<and> Enabled_s (config_s s) \<and> parse (Schedule (config_s s)) = None \<longrightarrow>
        jobID (fst (Start parse s)) \<noteq> 0
        \<and> cron_Entry_Job (cron (fst (Start parse s))) (jobID (fst (Start parse s))))"
  by (simp add: TriggerNow_def Start_def cron_AddFunc_def cron_Start_def cron_Entry_Job_def Let_def)

theorem C1_trigger_always_launches_witness:
  "in_flight (TriggerNow
     \<lparr>sched = fst (Start parse_any (fresh_scheduler five_minutes)), in_flight = 1\<rparr>) = 2
   \<and> TriggerNow \<lparr>sched = fresh_scheduler five_minutes, in_flight = 0\<rparr>
      = \<lparr>sched = fresh_scheduler five_minutes, in_flight = 0\<rparr>"
  using C1_trigger_always_launches [where
      p = "\<lparr>sched = fst (Start parse_any (fresh_scheduler five_minutes)), in_flight = 1\<rparr>"
      and s = "fresh_scheduler five_minutes" and parse = parse_any]
    C1_trigger_always_launches [where
      p = "\<lparr>sched = fresh_scheduler five_minutes, in_flight = 0\<rparr>"
      and s = "fresh_scheduler five_minutes" and parse = parse_any]
  by (simp add: five_minutes_def parse_any_def fresh_scheduler_def)

text \<open>
  C10: for a configuration with \<open>Enabled = false\<close>, every one of any number of calls
  of \<open>Start\<close> on the new scheduler returns nil and leaves the scheduler as it was: no
  cron entry, no job id, \<open>IsRunning\<close> false.
\<close>

theorem C10_disabled_start:
  assumes "\<not> Enabled_s cfg"
  shows "NewScheduler (Some cfg) True True = Inr (fresh_scheduler cfg)
       \<and> Start_times parse n (fresh_scheduler cfg) = (fresh_scheduler cfg, replicate n None)
       \<and> cron_entries (cron (fst (Start_times parse n (fresh_scheduler cfg)))) = []
       \<and> jobID (fst (Start_times parse n (fresh_scheduler cfg))) = 0
       \<and> \<not> IsRunning (fst (Start_times parse n (fresh_scheduler cfg)))"
proof -
  have new: "NewScheduler (Some cfg) True True = Inr (fresh_scheduler cfg)"
    by (simp add: NewScheduler_def fresh_scheduler_def)
  have st: "Start_times parse n (fresh_scheduler cfg) = (fresh_scheduler cfg, replicate n None)"
    using assms by (intro Start_times_disabled) (simp_all add: fresh_scheduler_def)
  show ?thesis
    using new st by (simp add: IsRunning_def cron_New_def fresh_scheduler_def)
qed

theorem C10_disabled_start_witness:
  "\<not> Enabled_s switched_off
   \<and> NewScheduler (Some switched_off) True True = Inr (fresh_scheduler switched_off)
   \<and> Start_times parse_any 3 (fresh_scheduler switched_off)
       = (fresh_scheduler switched_off, [None, None, None])
   \<and> \<not> IsRunning (fst (Start_times parse_any 3 (fresh_scheduler switched_off)))"
proof -
  have r: "replicate 3 None = [None, None, None]" for x :: "string option"
    by (simp add: numeral_3_eq_3)
  have off: "\<not> Enabled_s switched_off"
    by (simp add: switched_off_def)
  show ?thesis
    using off C10_disabled_start [OF off, of parse_any 3] by (auto simp: r)
qed

subsection \<open>The dialer (C2, C7)\<close>

text \<open>
  C2, as the claim states it: a failing set-socket-option call does not fail the dial.
  It is false on the non-Windows build: with DSCP 46 and a socket that refuses the
  option, \<open>DialContext\<close> returns the control function's error.
\<close>

theorem C2_unix_setsockopt_failure_counterexample:
  "setsockopt refusing_socket IP_TOS 184 = Some ''operation not permitted''
   \<and> fst (DialContext Unix any_literal dialer_46 refusing_socket ''tcp'' ''198.51.100.7:8080'')
     = Inl (OpError ''failed to set DSCP (TOS=184): operation not permitted'')"
  by (simp add: DialContext_def net_DialContext_def controlFunc_def controlFunc_unix_def
        shl_def wrap64_def fmt_d_def string_of_nat.simps digit_char_def
        any_literal_def dialer_46_def refusing_socket_def)

text \<open>
  C2, amended: on the Windows build, where marking is unsupported, the control function
  never fails the dial: the dial's result is the one of the same dial without marking, no
  option is set, and with a logger the skipped marking is logged as a warning.  On the
  other builds a set-socket-option call that fails is returned as the dial's error.
\<close>

theorem C2_marking_failure:
  "fst (DialContext Windows ParseIP d env network address)
     = fst (DialContext Windows ParseIP (d\<lparr>DSCP_d := 0\<rparr>) env network address)
   \<and> marks (snd (DialContext Windows ParseIP d env network address)) = []
   \<and> (0 < DSCP_d d \<and> Logger_d d \<and> (SourceIP_d d = [] \<or> ParseIP (SourceIP_d d)) \<longrightarrow>
        ''DSCP marking is not supported on Windows, skipping''
          \<in> set (logs (snd (DialContext Windows ParseIP d env network address))))
   \<and> (0 < DSCP_d d \<and> (SourceIP_d d = [] \<or> ParseIP (SourceIP_d d)) \<and> raw_control env = None
        \<and> setsockopt env (if resolved env network = ''tcp6'' \<or> resolved env network = ''udp6''
                           then IPV6_TCLASS else IP_TOS) (shl (DSCP_d d) 2) = Some e \<longrightarrow>
        fst (DialContext Unix ParseIP d env network address)
          = Inl (OpError (''failed to set DSCP (TOS='' @ fmt_d (shl (DSCP_d d) 2) @ ''): '' @ e)))"
  by (auto simp: DialContext_def net_DialContext_def controlFunc_def controlFunc_unix_def
        controlFunc_windows_def no_effects_def Let_def split: option.splits prod.splits)

theorem C2_marking_failure_witness:
  "fst (DialContext Windows any_literal dialer_46 refusing_socket ''tcp'' ''198.51.100.7:8080'')
     = Inr (Conn None)
   \<and> ''DSCP marking is not supported on Windows, skipping''
        \<in> set (logs (snd (DialContext Windows any_literal dialer_46 refusing_socket
                             ''tcp'' ''198.51.100.7:8080'')))
   \<and> fst (DialContext Unix any_literal dialer_46 refusing_socket ''tcp'' ''198.51.100.7:8080'')
     = Inl (OpError (''failed to set DSCP (TOS='' @ fmt_d 184 @ ''): operation not permitted''))"
  using C2_marking_failure [of any_literal dialer_46 refusing_socket "''tcp''"
      "''198.51.100.7:8080''" "''operation not permitted''"]
  by (simp add: DialContext_def net_DialContext_def no_effects_def shl_def wrap64_def
        any_literal_def dialer_46_def refusing_socket_def)

text \<open>
  C7: for every DSCP value d with 0 < d <= 63, the value the control function passes to
  the set-socket-option call (and records as applied when the call succeeds) is d << 2,
  and shifting it back by two yields d: TOSToDSCP (DSCPToTOS d) = d.
\<close>

theorem C7_marking_roundtrip:
  assumes "0 < d" and "d \<le> 63"
      and "raw_control env = None"
      and "setsockopt env (if network = ''tcp6'' \<or> network = ''udp6'' then IPV6_TCLASS else IP_TOS) (d * 4) = None"
  shows "map snd (marks (snd (controlFunc_unix \<lparr>DSCP_d = d, SourceIP_d = ip, Logger_d = lg\<rparr> network env)))
           = [DSCPToTOS d]
       \<and> DSCPToTOS d = d * 4
       \<and> shr (DSCPToTOS d) 2 = d
       \<and> TOSToDSCP (DSCPToTOS d) = d"
proof -
  have w: "wrap64 (d * 4) = d * 4"
    using assms(1,2) by (intro wrap64_id) simp_all
  have tos: "DSCPToTOS d = d * 4"
    by (simp add: DSCPToTOS_def shl_def w)
  have rt: "TOSToDSCP (DSCPToTOS d) = d"
    by (simp add: tos TOSToDSCP_def shr_def)
  have applied: "map snd (marks (snd (controlFunc_unix \<lparr>DSCP_d = d, SourceIP_d = ip, Logger_d = lg\<rparr> network env)))
           = [d * 4]"
    using assms(3,4) by (simp add: controlFunc_unix_def shl_def w Let_def)
  show ?thesis
    using tos rt applied by (simp add: TOSToDSCP_def)
qed

theorem C7_marking_roundtrip_witness:
  "(0::int) < 46 \<and> (46::int) \<le> 63
   \<and> map snd (marks (snd (controlFunc_unix dialer_46 ''tcp4'' willing_socket))) = [184]
   \<and> DSCPToTOS 46 = 184 \<and> TOSToDSCP (DSCPToTOS 46) = 46"
  using C7_marking_roundtrip [of 46 willing_socket "''tcp4''" "[]" True]
  by (simp add: TOSToDSCP_def shr_def dialer_46_def willing_socket_def)

subsection \<open>The runner (C3, C4, C5)\<close>

text \<open>
  C3, as the claim states it: no returned result has an empty error together with zero
  measurements.  It is false: when a server is found and its ping, download and upload
  tests all fail, \<open>Run\<close> succeeds with an empty \<open>Error\<close> and every measurement zero.
\<close>

theorem C3_all_tests_fail_counterexample:
  "snd (Run default_runner (world_of [server_down]) never_cancelled path_A) = None
   \<and> Error (fst (Run default_runner (world_of [server_down]) never_cancelled path_A)) = []
   \<and> LatencyMs (fst (Run default_runner (world_of [server_down]) never_cancelled path_A)) = 0
   \<and> JitterMs (fst (Run default_runner (world_of [server_down]) never_cancelled path_A)) = 0
   \<and> DownloadMbps (fst (Run default_runner (world_of [server_down]) never_cancelled path_A)) = 0
   \<and> UploadMbps (fst (Run default_runner (world_of [server_down]) never_cancelled path_A)) = 0
   \<and> PacketLossPct (fst (Run default_runner (world_of [server_down]) never_cancelled path_A)) = 0"
  by (simp add: Run_def NewDSCPDialer_def zero_Result_def path_A_def server_down_def
        world_of_def default_runner_def)

text \<open>
  C3, amended: when \<open>Run\<close> returns an error, the result's \<open>Error\<close> is non-empty and
  all numeric measurement fields are zero.  When \<open>Run\<close> returns no error, \<open>Error\<close> is
  empty, download and upload hold the rates read from the first server found, latency and
  jitter hold the ping's values or zero when the ping failed, and the packet loss is zero.
\<close>

theorem C3_outcome_shape:
  "(case Run r w c conn of
      (res, Some err) \<Rightarrow>
        Error res \<noteq> [] \<and> LatencyMs res = 0 \<and> JitterMs res = 0 \<and> DownloadMbps res = 0
        \<and> UploadMbps res = 0 \<and> PacketLossPct res = 0
    | (res, None) \<Rightarrow>
        Error res = [] \<and> PacketLossPct res = 0
        \<and> (\<exists>server others. FindServer w (ServerIDs (config_r r)) = Inr (server # others)
              \<and> DownloadMbps res = DLSpeed_Mbps server \<and> UploadMbps res = ULSpeed_Mbps server
              \<and> (case PingTest server of
                    Inl e \<Rightarrow> LatencyMs res = 0 \<and> JitterMs res = 0
                  | Inr (latency, jitter) \<Rightarrow>
                      LatencyMs res = real_of_int latency \<and> JitterMs res = real_of_int jitter)))"
  by (auto simp: Run_def Let_def zero_Result_def split: sum.splits option.splits list.splits prod.splits)

theorem C3_outcome_shape_witness:
  "Error (fst (Run default_runner (world_of []) never_cancelled path_A)) \<noteq> []
   \<and> DownloadMbps (fst (Run default_runner (world_of []) never_cancelled path_A)) = 0
   \<and> Error (fst (Run default_runner (world_of [server_up]) never_cancelled path_B)) = []
   \<and> DownloadMbps (fst (Run default_runner (world_of [server_up]) never_cancelled path_B)) = 94
   \<and> LatencyMs (fst (Run default_runner (world_of [server_up]) never_cancelled path_B)) = 12"
  using C3_outcome_shape [where r = default_runner and w = "world_of []" and c = never_cancelled and conn = path_A]
        C3_outcome_shape [where r = default_runner and w = "world_of [server_up]" and c = never_cancelled and conn = path_B]
  by (simp add: Run_def NewDSCPDialer_def zero_Result_def path_A_def path_B_def
        server_up_def world_of_def default_runner_def)

text \<open>
  C4, as the claim states it: \<open>Run\<close> and \<open>RunConnection\<close> never return an error to
  their caller.  It is false: with no server available both return the error next to the
  result.
\<close>

theorem C4_run_returns_error_counterexample:
  "snd (Run default_runner (world_of []) never_cancelled path_A)
     = Some ''no speedtest servers available''
   \<and> RunConnection three_paths (same_world (world_of [])) never_cancelled ''A''
     = (Some (fst (Run default_runner (world_of []) never_cancelled path_A)),
        Some ''no speedtest servers available'')"
  by (simp add: RunConnection_def Run_def NewDSCPDialer_def zero_Result_def 
        same_world_def path_A_def path_B_def path_C_def world_of_def default_runner_def three_paths_def)

text \<open>
  C4, amended: \<open>Run\<close> reports a failure twice, in the result's \<open>Error\<close> and as a
  returned error (the one exactly when the other); \<open>RunConnection\<close> returns the pair
  of \<open>Run\<close> for the first connection of that name; \<open>runSequential\<close> on a context that
  is never cancelled and \<open>runParallel\<close> return no error, whatever the paths did.
\<close>

theorem C4_error_propagation:
  "(IsError (fst (Run r w c conn)) \<longleftrightarrow> snd (Run r w c conn) \<noteq> None)
   \<and> (k < length (connections m) \<and> Name (connections m ! k) = name
        \<and> (\<forall>j<k. Name (connections m ! j) \<noteq> name) \<longrightarrow>
      RunConnection m ws c name
        = (Some (fst (Run (runner m) (ws k) c (connections m ! k))),
           snd (Run (runner m) (ws k) c (connections m ! k))))
   \<and> ((\<forall>i. c i = None) \<longrightarrow> snd (runSequential m ws c) = None)
   \<and> snd (runParallel m ws c order) = None"
proof -
  have a: "IsError (fst (Run r w c conn)) \<longleftrightarrow> snd (Run r w c conn) \<noteq> None"
    by (rule Run_error_iff)
  have b: "RunConnection m ws c name
        = (Some (fst (Run (runner m) (ws k) c (connections m ! k))),
           snd (Run (runner m) (ws k) c (connections m ! k)))"
    if "k < length (connections m)" "Name (connections m ! k) = name"
       "\<forall>j<k. Name (connections m ! j) \<noteq> name"
    using conn_loop_found [of k "connections m" name "runner m" ws c 0] that
    by (simp add: RunConnection_def)
  have s: "snd (runSequential m ws c) = None" if "\<forall>i. c i = None"
    using that by (simp add: runSequential_def seq_loop_uncancelled)
  have p: "snd (runParallel m ws c order) = None"
    by (simp add: runParallel_def)
  show ?thesis using a b s p by blast
qed

theorem C4_error_propagation_witness:
  "IsError (fst (Run default_runner (world_of []) never_cancelled path_B))
   \<and> snd (Run default_runner (world_of []) never_cancelled path_B) \<noteq> None
   \<and> snd (RunConnection three_paths (same_world (world_of [])) never_cancelled ''B'')
       = snd (Run default_runner (world_of []) never_cancelled path_B)
   \<and> snd (runSequential three_paths (same_world (world_of [])) never_cancelled) = None
   \<and> snd (runParallel three_paths (same_world (world_of [])) never_cancelled [2, 0, 1]) = None"
  using C4_error_propagation [where r = default_runner and w = "world_of []" and c = never_cancelled
      and conn = path_B and k = 1 and m = three_paths and name = "''B''"
      and ws = "same_world (world_of [])" and order = "[2, 0, 1]"]
  by (simp add: Run_def NewDSCPDialer_def zero_Result_def IsError_def 
        same_world_def path_A_def path_B_def path_C_def world_of_def default_runner_def three_paths_def
        never_cancelled_def less_Suc_eq)

text \<open>
  C5, as the claim states it: the result carries the elapsed duration whether the attempt
  succeeds or fails.  It is false: with no server available, five seconds after the start,
  the \<open>Duration\<close> of the result is 0.
\<close>

theorem C5_failure_duration_counterexample:
  "Since (world_of []) = 5
   \<and> snd (Run default_runner (world_of []) never_cancelled path_A) = Some ''no speedtest servers available''
   \<and> Duration (fst (Run default_runner (world_of []) never_cancelled path_A)) = 0"
  by (simp add: Run_def NewDSCPDialer_def zero_Result_def path_A_def world_of_def
        default_runner_def)

text \<open>
  C5, amended: every result of \<open>Run\<close> carries the start time in \<open>Timestamp\<close>; its
  \<open>Duration\<close> is the elapsed time when \<open>Run\<close> returns no error and 0 when it
  returns an error.
\<close>

theorem C5_timestamp_duration:
  "Timestamp (fst (Run r w c conn)) = Now w
   \<and> Duration (fst (Run r w c conn)) = (if snd (Run r w c conn) = None then Since w else 0)"
  by (simp add: Run_def Let_def zero_Result_def split: sum.splits option.splits list.splits prod.splits)

theorem C5_timestamp_duration_witness:
  "Timestamp (fst (Run default_runner (world_of [server_up]) never_cancelled path_B)) = 1700000000
   \<and> Duration (fst (Run default_runner (world_of [server_up]) never_cancelled path_B)) = 5
   \<and> Timestamp (fst (Run default_runner (world_of []) never_cancelled path_B)) = 1700000000
   \<and> Duration (fst (Run default_runner (world_of []) never_cancelled path_B)) = 0"
  using C5_timestamp_duration [where r = default_runner and w = "world_of [server_up]" and c = never_cancelled and conn = path_B]
        C5_timestamp_duration [where r = default_runner and w = "world_of []" and c = never_cancelled and conn = path_B]
  by (simp add: Run_def NewDSCPDialer_def zero_Result_def path_B_def server_up_def
        world_of_def default_runner_def)

subsection \<open>The sweep (C6, C8, C9)\<close>

text \<open>
  C6: in serial mode, on a context that is never cancelled, \<open>RunAll\<close> returns no error
  and exactly one result per configured path, in the order of the paths: the \<open>i\<close>-th
  result is the one of the \<open>i\<close>-th path and carries its name, so that distinct path names
  give distinct result names.
\<close>

theorem C6_serial_one_per_path:
  assumes "\<not> parallel m" and "\<forall>i. c i = None"
  shows "snd (RunAll m ws c order) = None
       \<and> length (fst (RunAll m ws c order)) = length (connections m)
       \<and> map ConnectionName (fst (RunAll m ws c order)) = map Name (connections m)
       \<and> (\<forall>i < length (connections m).
            fst (RunAll m ws c order) ! i = run_one (runner m) (ws i) c (connections m ! i))
       \<and> (distinct (map Name (connections m)) \<longrightarrow>
            distinct (map ConnectionName (fst (RunAll m ws c order))))"
proof -
  let ?f = "\<lambda>(j, conn). run_one (runner m) (ws j) c conn"
  have all: "RunAll m ws c order = (map ?f (enumerate 0 (connections m)), None)"
    using assms by (simp add: RunAll_def runSequential_def seq_loop_uncancelled)
  have names: "map ConnectionName (fst (RunAll m ws c order)) = map Name (connections m)"
    by (simp only: all fst_conv enum_names)
  have nth: "fst (RunAll m ws c order) ! i = run_one (runner m) (ws i) c (connections m ! i)"
    if "i < length (connections m)" for i
    using that by (simp add: all nth_enumerate_eq)
  have len: "length (fst (RunAll m ws c order)) = length (connections m)"
    by (simp add: all)
  show ?thesis
    using names nth len by (simp add: all)
qed

theorem C6_serial_one_per_path_witness:
  "\<not> parallel three_paths
   \<and> snd (RunAll three_paths (same_world (world_of [server_up])) never_cancelled []) = None
   \<and> length (fst (RunAll three_paths (same_world (world_of [server_up])) never_cancelled [])) = 3
   \<and> map ConnectionName (fst (RunAll three_paths (same_world (world_of [server_up])) never_cancelled []))
       = [''A'', ''B'', ''C'']"
  using C6_serial_one_per_path [where m = three_paths and c = never_cancelled
      and ws = "same_world (world_of [server_up])" and order = "[]"]
  by (simp add: three_paths_def never_cancelled_def same_world_def path_A_def path_B_def path_C_def)





end
